theory Spec2Isabelle
  imports Main
begin

section \<open>The account security state machine of the \<open>User\<close> model\<close>

text \<open>
  A shallow embedding of the OTP and lockout methods of \<open>User\<close> in
  \<open>core_apps/user_auth/models.py\<close> and of \<open>send_account_locked_email\<close> in
  \<open>core_apps/user_auth/emails.py\<close>.

  \<^item> A \<open>datetime\<close> is an \<open>int\<close> (a count of microseconds), a \<open>timedelta\<close> is an
    \<open>int\<close> too; \<open>None\<close> in a nullable field is \<open>None\<close> of an \<open>option\<close>.
  \<^item> The methods read three values of \<open>django.conf.settings\<close>; these are deployment
    configuration, and are taken as a parameter \<open>cfg\<close>.
  \<^item> \<open>timezone.now()\<close> is read once in each method; its value is the parameter \<open>now\<close>.
  \<^item> Every method mutates the instance and may call \<open>save()\<close> and the mailer; the
    model returns the instance after the call together with the effects of the call, in
    the order in which they happen. \<open>save()\<close> is the framework's: it is recorded with the
    field values that it writes, and taken to succeed. The counter is a Python \<open>int\<close>
    on the instance, so it is an \<open>int\<close> here; the width of the database column and the
    range of \<open>datetime\<close> are not modelled.
\<close>

subsection \<open>Data\<close>

datatype AccountStatus = ACTIVE | LOCKED

record user =
  email :: string
  account_status :: AccountStatus
  failed_login_attempts :: int
  last_failed_login :: "int option"
  otp :: "string option"
  otp_expiry_time :: "int option"

record settings =
  OTP_EXPIRY_TIME :: int
  MAX_FAILED_LOGIN_ATTEMPTS :: int
  LOCKOUT_DURATION :: int

text \<open>The field defaults of the model: what a newly created row holds.\<close>

definition new_user :: "string \<Rightarrow> user" where
  "new_user em =
     \<lparr>email = em, account_status = ACTIVE, failed_login_attempts = 0,
      last_failed_login = None, otp = None, otp_expiry_time = None\<rparr>"

text \<open>
  The effects of a call: \<open>Saved u\<close> is a \<open>self.save()\<close> writing the fields \<open>u\<close>;
  \<open>Account_locked_email rs\<close> is one call of \<open>send_account_locked_email\<close>, which builds
  the message for the recipients \<open>rs\<close> and sends it (a failure to deliver is caught and
  logged there).
\<close>

datatype event = Saved user | Account_locked_email "string list"

datatype error = TypeError

subsection \<open>The mailer\<close>

definition send_account_locked_email :: "user \<Rightarrow> event list" where
  "send_account_locked_email u = [Account_locked_email [email u]]"

subsection \<open>One-time passwords\<close>

definition set_otp :: "settings \<Rightarrow> int \<Rightarrow> string \<Rightarrow> user \<Rightarrow> user \<times> event list" where
  "set_otp cfg now code u =
     (let u1 = u\<lparr>otp := Some code\<rparr>;
          u2 = u1\<lparr>otp_expiry_time := Some (now + OTP_EXPIRY_TIME cfg)\<rparr>
      in (u2, [Saved u2]))"

text \<open>
  \<open>self.otp == otp and self.otp_expiry_time > timezone.now()\<close>: the comparison of the
  expiry time is evaluated only when the codes are equal, and comparing \<open>None\<close> with a
  \<open>datetime\<close> raises \<open>TypeError\<close>.
\<close>

definition verify_otp :: "int \<Rightarrow> string \<Rightarrow> user \<Rightarrow> error + (bool \<times> user \<times> event list)" where
  "verify_otp now code u =
     (if otp u = Some code then
        (case otp_expiry_time u of
           None \<Rightarrow> Inl TypeError
         | Some e \<Rightarrow>
             if e > now then
               (let u1 = u\<lparr>otp := Some []\<rparr>;
                    u2 = u1\<lparr>otp_expiry_time := None\<rparr>
                in Inr (True, u2, [Saved u2]))
             else Inr (False, u, []))
      else Inr (False, u, []))"

subsection \<open>Failed logins and lockout\<close>

definition handle_failed_login_attempts :: "settings \<Rightarrow> int \<Rightarrow> user \<Rightarrow> user \<times> event list" where
  "handle_failed_login_attempts cfg now u =
     (let u1 = u\<lparr>failed_login_attempts := failed_login_attempts u + 1\<rparr>;
          u2 = u1\<lparr>last_failed_login := Some now\<rparr>
      in if failed_login_attempts u2 \<ge> MAX_FAILED_LOGIN_ATTEMPTS cfg then
           (let u3 = u2\<lparr>account_status := LOCKED\<rparr>
            in (u3, [Saved u3] @ send_account_locked_email u3 @ [Saved u3]))
         else (u2, [Saved u2]))"

definition reset_failed_login_attempts :: "user \<Rightarrow> user \<times> event list" where
  "reset_failed_login_attempts u =
     (let u1 = u\<lparr>failed_login_attempts := 0\<rparr>;
          u2 = u1\<lparr>last_failed_login := None\<rparr>;
          u3 = u2\<lparr>account_status := ACTIVE\<rparr>
      in (u3, [Saved u3]))"

definition unlock_account :: "user \<Rightarrow> user \<times> event list" where
  "unlock_account u =
     (if account_status u = LOCKED then
        (let u1 = u\<lparr>account_status := ACTIVE\<rparr>;
             u2 = u1\<lparr>failed_login_attempts := 0\<rparr>;
             u3 = u2\<lparr>last_failed_login := None\<rparr>
         in (u3, [Saved u3]))
      else (u, []))"

text \<open>
  \<open>self.last_failed_login and (timezone.now() - self.last_failed_login) > ...\<close>: a
  \<open>datetime\<close> is always true, so the first conjunct only tests for \<open>None\<close>.
\<close>

definition is_locked_out :: "settings \<Rightarrow> int \<Rightarrow> user \<Rightarrow> bool \<times> user \<times> event list" where
  "is_locked_out cfg now u =
     (if account_status u = LOCKED then
        (case last_failed_login u of
           Some t \<Rightarrow>
             if now - t > LOCKOUT_DURATION cfg then (False, unlock_account u)
             else (True, u, [])
         | None \<Rightarrow> (True, u, []))
      else (False, u, []))"

subsection \<open>Sequences of calls\<close>

text \<open>
  A caller's view of the record: any of the six methods, each at its own clock reading.
  A call that raises leaves the instance as it was (\<open>verify_otp\<close> raises before it
  assigns anything) and has no effect; the return value of a call is dropped here.
\<close>

datatype call =
    Set_otp string
  | Verify_otp string
  | Handle_failed_login_attempts
  | Reset_failed_login_attempts
  | Unlock_account
  | Is_locked_out

fun exec :: "settings \<Rightarrow> int \<Rightarrow> call \<Rightarrow> user \<Rightarrow> user \<times> event list" where
  "exec cfg now (Set_otp code) u = set_otp cfg now code u"
| "exec cfg now (Verify_otp code) u =
     (case verify_otp now code u of Inl _ \<Rightarrow> (u, []) | Inr (_, r) \<Rightarrow> r)"
| "exec cfg now Handle_failed_login_attempts u = handle_failed_login_attempts cfg now u"
| "exec cfg now Reset_failed_login_attempts u = reset_failed_login_attempts u"
| "exec cfg now Unlock_account u = unlock_account u"
| "exec cfg now Is_locked_out u = snd (is_locked_out cfg now u)"

fun run :: "settings \<Rightarrow> (int \<times> call) list \<Rightarrow> user \<Rightarrow> user \<times> event list" where
  "run cfg [] u = (u, [])"
| "run cfg ((now, c) # cs) u =
     (case exec cfg now c u of
        (u1, es1) \<Rightarrow> (case run cfg cs u1 of (u2, es2) \<Rightarrow> (u2, es1 @ es2)))"

text \<open>The number of calls of the lockout mailer among the effects.\<close>

fun is_locked_email :: "event \<Rightarrow> bool" where
  "is_locked_email (Account_locked_email _) = True"
| "is_locked_email (Saved _) = False"

definition notifications :: "event list \<Rightarrow> nat" where
  "notifications es = length (filter is_locked_email es)"

text \<open>A \<open>set_otp\<close> call is given a code that is not the empty string.\<close>

fun code_given :: "int \<times> call \<Rightarrow> bool" where
  "code_given (_, Set_otp code) = (code \<noteq> [])"
| "code_given (_, _) = True"

text \<open>
  The history of the OTP: the code that the last \<open>set_otp\<close> issued, until a
  \<open>verify_otp\<close> returns true and so consumes it. \<open>verified\<close> is the boolean that
  \<open>verify_otp\<close> returns (false when it raises); \<open>outstanding cfg cs u g\<close> follows the
  calls \<open>cs\<close> made on the record \<open>u\<close> and gives the code that is issued and not yet consumed
  after them, when \<open>g\<close> is the one before them.
\<close>

definition verified :: "int \<Rightarrow> string \<Rightarrow> user \<Rightarrow> bool" where
  "verified now code u = (case verify_otp now code u of Inl _ \<Rightarrow> False | Inr (b, _) \<Rightarrow> b)"

fun outstanding_step :: "int \<Rightarrow> call \<Rightarrow> user \<Rightarrow> string option \<Rightarrow> string option" where
  "outstanding_step now (Set_otp code) u g = Some code"
| "outstanding_step now (Verify_otp code) u g = (if verified now code u then None else g)"
| "outstanding_step now _ u g = g"

fun outstanding :: "settings \<Rightarrow> (int \<times> call) list \<Rightarrow> user \<Rightarrow> string option \<Rightarrow> string option" where
  "outstanding cfg [] u g = g"
| "outstanding cfg ((now, c) # cs) u g =
     outstanding cfg cs (fst (exec cfg now c u)) (outstanding_step now c u g)"

text \<open>
  \<open>otp\<close> holds a non-empty, not-yet-consumed code: there is an issued and not yet
  consumed code \<open>g\<close>, it is not the empty string, and it is what the field \<open>otp\<close> holds.
  \<open>otp_nonempty\<close> looks at the field alone.
\<close>

definition otp_pending :: "string option \<Rightarrow> user \<Rightarrow> bool" where
  "otp_pending g u = (case g of None \<Rightarrow> False | Some code \<Rightarrow> code \<noteq> [] \<and> otp u = Some code)"

definition otp_nonempty :: "user \<Rightarrow> bool" where
  "otp_nonempty u = (case otp u of None \<Rightarrow> False | Some code \<Rightarrow> code \<noteq> [])"

text \<open>\<open>n\<close> failed logins in a row, at the clock readings \<open>ts\<close>.\<close>

definition failures :: "int list \<Rightarrow> (int \<times> call) list" where
  "failures ts = map (\<lambda>t. (t, Handle_failed_login_attempts)) ts"

section \<open>Verification of a one-time password\<close>

text \<open>
  C2, as the code has it. The claim puts the boundary at \<open>now \<le> otp_expiry\<close>; the code
  compares \<open>otp_expiry_time > now\<close>. For a record whose expiry time is set to \<open>e\<close>,
  \<open>verify_otp\<close> returns, and returns true exactly when the candidate equals the stored
  code and \<open>now < e\<close>.
\<close>

theorem verify_otp_true_iff:
  "otp_expiry_time u = Some e \<Longrightarrow>
     (\<exists>r. verify_otp now code u = Inr (otp u = Some code \<and> now < e, r))"
  by (simp add: verify_otp_def Let_def)

theorem verify_otp_true_iff_witness:
  "otp_expiry_time ((new_user ''a@b.c'')\<lparr>otp := Some ''483920'', otp_expiry_time := Some 300\<rparr>) = Some 300
   \<and> (\<exists>r. verify_otp 299 ''483920''
          ((new_user ''a@b.c'')\<lparr>otp := Some ''483920'', otp_expiry_time := Some 300\<rparr>)
        = Inr (True, r))"
  using verify_otp_true_iff
    [of "(new_user ''a@b.c'')\<lparr>otp := Some ''483920'', otp_expiry_time := Some 300\<rparr>"
        300 299 "''483920''"]
  by (simp add: new_user_def)

text \<open>
  C2 as stated fails when the clock reads exactly the expiry time: the candidate is the
  stored code and \<open>now \<le> otp_expiry\<close> holds, yet the call returns false.
\<close>

theorem verify_otp_at_expiry_counterexample:
  "otp ((new_user ''a@b.c'')\<lparr>otp := Some ''483920'', otp_expiry_time := Some 300\<rparr>) = Some ''483920''
   \<and> (300::int) \<le> 300
   \<and> verify_otp 300 ''483920''
        ((new_user ''a@b.c'')\<lparr>otp := Some ''483920'', otp_expiry_time := Some 300\<rparr>)
     = Inr (False, (new_user ''a@b.c'')\<lparr>otp := Some ''483920'', otp_expiry_time := Some 300\<rparr>, [])"
  by (simp add: verify_otp_def new_user_def)

text \<open>
  C3 at the failing input: an OTP is issued and verified, which leaves \<open>otp = ""\<close> and
  \<open>otp_expiry_time = None\<close>; \<open>verify_otp("")\<close> on that record raises \<open>TypeError\<close>
  instead of returning a boolean.
\<close>

theorem verify_otp_raises_after_success:
  "verify_otp 20 ''''
     (fst (run \<lparr>OTP_EXPIRY_TIME = 300, MAX_FAILED_LOGIN_ATTEMPTS = 3, LOCKOUT_DURATION = 900\<rparr>
             [(0, Set_otp ''483920''), (10, Verify_otp ''483920'')] (new_user ''a@b.c'')))
   = Inl TypeError"
  by (simp add: verify_otp_def set_otp_def new_user_def Let_def)

text \<open>
  C4: once \<open>verify_otp\<close> has succeeded with the code that \<open>set_otp\<close> stored, and that code
  is not the empty string, another \<open>verify_otp\<close> with the same code, at any time,
  returns false.
\<close>

theorem verify_otp_no_replay:
  "code \<noteq> [] \<Longrightarrow>
   verify_otp t1 code (fst (set_otp cfg t0 code u)) = Inr (True, u1, es1) \<Longrightarrow>
   verify_otp t2 code u1 = Inr (False, u1, [])"
  by (auto simp: verify_otp_def set_otp_def Let_def split: if_splits)

theorem verify_otp_no_replay_witness:
  "''483920'' \<noteq> []
   \<and> (\<exists>u1 es1.
        verify_otp 299 ''483920''
          (fst (set_otp \<lparr>OTP_EXPIRY_TIME = 300, MAX_FAILED_LOGIN_ATTEMPTS = 3, LOCKOUT_DURATION = 900\<rparr>
                  0 ''483920'' (new_user ''a@b.c'')))
          = Inr (True, u1, es1)
        \<and> verify_otp 299 ''483920'' u1 = Inr (False, u1, []))"
proof -
  let ?cfg = "\<lparr>OTP_EXPIRY_TIME = 300, MAX_FAILED_LOGIN_ATTEMPTS = 3, LOCKOUT_DURATION = 900\<rparr>"
  let ?u1 = "(new_user ''a@b.c'')\<lparr>otp := Some [], otp_expiry_time := None\<rparr>"
  have first: "verify_otp 299 ''483920'' (fst (set_otp ?cfg 0 ''483920'' (new_user ''a@b.c'')))
                 = Inr (True, ?u1, [Saved ?u1])"
    by (simp add: verify_otp_def set_otp_def new_user_def Let_def)
  have "verify_otp 299 ''483920'' ?u1 = Inr (False, ?u1, [])"
    using verify_otp_no_replay [OF _ first, of 299] by simp
  with first show ?thesis by blast
qed

text \<open>
  C8: a call of \<open>verify_otp\<close> that returns false returns the record it was given, every
  field as before, and has saved nothing.
\<close>

theorem verify_otp_false_unchanged:
  "verify_otp now code u = Inr (False, u', es) \<Longrightarrow> u' = u \<and> es = []"
  by (auto simp: verify_otp_def Let_def split: if_splits option.splits)

theorem verify_otp_false_unchanged_witness:
  "verify_otp 301 ''483920''
     ((new_user ''a@b.c'')\<lparr>otp := Some ''483920'', otp_expiry_time := Some 300\<rparr>)
   = Inr (False, (new_user ''a@b.c'')\<lparr>otp := Some ''483920'', otp_expiry_time := Some 300\<rparr>, [])"
proof -
  let ?u = "(new_user ''a@b.c'')\<lparr>otp := Some ''483920'', otp_expiry_time := Some 300\<rparr>"
  obtain u' es where r: "verify_otp 301 ''483920'' ?u = Inr (False, u', es)"
    by (simp add: verify_otp_def new_user_def)
  from verify_otp_false_unchanged [OF r] r show ?thesis by simp
qed


section \<open>Lockout\<close>

text \<open>
  C6: on an \<open>ACTIVE\<close> record \<open>is_locked_out\<close> is false and changes nothing. On a \<open>LOCKED\<close>
  record whose last failed login at \<open>t\<close> is more than \<open>LOCKOUT_DURATION\<close> ago, the call
  is false and does what \<open>unlock_account\<close> does: the record is \<open>ACTIVE\<close> again, its
  counter \<open>0\<close> and its timestamp cleared, and it is saved. On a \<open>LOCKED\<close> record whose last
  failed login is not that long ago, the call is true and changes nothing.
\<close>

theorem is_locked_out_cases:
  "(account_status u = ACTIVE \<longrightarrow> is_locked_out cfg now u = (False, u, []))
   \<and> (account_status u = LOCKED \<and> last_failed_login u = Some t \<and> now - t > LOCKOUT_DURATION cfg \<longrightarrow>
        is_locked_out cfg now u = (False, unlock_account u)
        \<and> unlock_account u =
            (u\<lparr>account_status := ACTIVE, failed_login_attempts := 0, last_failed_login := None\<rparr>,
             [Saved (u\<lparr>account_status := ACTIVE, failed_login_attempts := 0, last_failed_login := None\<rparr>)]))
   \<and> (account_status u = LOCKED \<and> last_failed_login u = Some t \<and> \<not> now - t > LOCKOUT_DURATION cfg \<longrightarrow>
        is_locked_out cfg now u = (True, u, []))"
  by (simp add: is_locked_out_def unlock_account_def Let_def)

theorem is_locked_out_cases_witness:
  "is_locked_out \<lparr>OTP_EXPIRY_TIME = 300, MAX_FAILED_LOGIN_ATTEMPTS = 3, LOCKOUT_DURATION = 900\<rparr> 50
     (new_user ''a@b.c'') = (False, new_user ''a@b.c'', [])
   \<and> fst (is_locked_out \<lparr>OTP_EXPIRY_TIME = 300, MAX_FAILED_LOGIN_ATTEMPTS = 3, LOCKOUT_DURATION = 900\<rparr> 1000
       ((new_user ''a@b.c'')
          \<lparr>account_status := LOCKED, failed_login_attempts := 3, last_failed_login := Some 99\<rparr>)) = False
   \<and> account_status (fst (snd
       (is_locked_out \<lparr>OTP_EXPIRY_TIME = 300, MAX_FAILED_LOGIN_ATTEMPTS = 3, LOCKOUT_DURATION = 900\<rparr> 1000
         ((new_user ''a@b.c'')
            \<lparr>account_status := LOCKED, failed_login_attempts := 3, last_failed_login := Some 99\<rparr>)))) = ACTIVE
   \<and> is_locked_out \<lparr>OTP_EXPIRY_TIME = 300, MAX_FAILED_LOGIN_ATTEMPTS = 3, LOCKOUT_DURATION = 900\<rparr> 999
       ((new_user ''a@b.c'')
          \<lparr>account_status := LOCKED, failed_login_attempts := 3, last_failed_login := Some 99\<rparr>)
     = (True, (new_user ''a@b.c'')
          \<lparr>account_status := LOCKED, failed_login_attempts := 3, last_failed_login := Some 99\<rparr>, [])"
proof -
  let ?cfg = "\<lparr>OTP_EXPIRY_TIME = 300, MAX_FAILED_LOGIN_ATTEMPTS = 3, LOCKOUT_DURATION = 900\<rparr>"
  let ?l = "(new_user ''a@b.c'')
              \<lparr>account_status := LOCKED, failed_login_attempts := 3, last_failed_login := Some 99\<rparr>"
  have a: "account_status (new_user ''a@b.c'') = ACTIVE"
    by (simp add: new_user_def)
  have l: "account_status ?l = LOCKED" "last_failed_login ?l = Some 99"
    by simp_all
  have late: "(1000::int) - 99 > LOCKOUT_DURATION ?cfg"
    and early: "\<not> (999::int) - 99 > LOCKOUT_DURATION ?cfg"
    by simp_all
  from is_locked_out_cases [where u = "new_user ''a@b.c''" and cfg = ?cfg and now = 50] a
  have 1: "is_locked_out ?cfg 50 (new_user ''a@b.c'') = (False, new_user ''a@b.c'', [])"
    by blast
  from is_locked_out_cases [where u = ?l and cfg = ?cfg and now = 1000 and t = 99] l late
  have 2: "is_locked_out ?cfg 1000 ?l = (False, unlock_account ?l)"
    and 3: "unlock_account ?l =
        (?l\<lparr>account_status := ACTIVE, failed_login_attempts := 0, last_failed_login := None\<rparr>,
         [Saved (?l\<lparr>account_status := ACTIVE, failed_login_attempts := 0, last_failed_login := None\<rparr>)])"
    by blast+
  from is_locked_out_cases [where u = ?l and cfg = ?cfg and now = 999 and t = 99] l early
  have 4: "is_locked_out ?cfg 999 ?l = (True, ?l, [])"
    by blast
  from 1 2 3 4 show ?thesis by simp
qed

text \<open>
  C7, as the code has it. After \<open>reset_failed_login_attempts\<close>, on any record, and
  after \<open>unlock_account\<close> on a \<open>LOCKED\<close> record, the counter is \<open>0\<close>, the timestamp is
  cleared, the status is \<open>ACTIVE\<close> and the record has been saved once. On an \<open>ACTIVE\<close>
  record \<open>unlock_account\<close> changes no field, saves nothing and sends nothing; so the
  status is \<open>ACTIVE\<close> after \<open>unlock_account\<close> in every case, while the counter and the
  timestamp of an \<open>ACTIVE\<close> record stay what they were.
\<close>

theorem reset_and_unlock:
  "reset_failed_login_attempts u =
     (u\<lparr>failed_login_attempts := 0, last_failed_login := None, account_status := ACTIVE\<rparr>,
      [Saved (u\<lparr>failed_login_attempts := 0, last_failed_login := None, account_status := ACTIVE\<rparr>)])
   \<and> (account_status u = LOCKED \<longrightarrow>
        unlock_account u =
          (u\<lparr>account_status := ACTIVE, failed_login_attempts := 0, last_failed_login := None\<rparr>,
           [Saved (u\<lparr>account_status := ACTIVE, failed_login_attempts := 0, last_failed_login := None\<rparr>)]))
   \<and> (account_status u = ACTIVE \<longrightarrow> unlock_account u = (u, []))
   \<and> account_status (fst (unlock_account u)) = ACTIVE"
  by (cases "account_status u")
     (simp_all add: reset_failed_login_attempts_def unlock_account_def Let_def)

theorem reset_and_unlock_witness:
  "failed_login_attempts (fst (unlock_account
      ((new_user ''a@b.c'')
         \<lparr>account_status := LOCKED, failed_login_attempts := 3, last_failed_login := Some 99\<rparr>))) = 0
   \<and> last_failed_login (fst (unlock_account
      ((new_user ''a@b.c'')
         \<lparr>account_status := LOCKED, failed_login_attempts := 3, last_failed_login := Some 99\<rparr>))) = None
   \<and> unlock_account
        ((new_user ''a@b.c'')\<lparr>failed_login_attempts := 2, last_failed_login := Some 99\<rparr>)
      = ((new_user ''a@b.c'')\<lparr>failed_login_attempts := 2, last_failed_login := Some 99\<rparr>, [])"
proof -
  let ?l = "(new_user ''a@b.c'')
              \<lparr>account_status := LOCKED, failed_login_attempts := 3, last_failed_login := Some 99\<rparr>"
  let ?a = "(new_user ''a@b.c'')\<lparr>failed_login_attempts := 2, last_failed_login := Some 99\<rparr>"
  have l: "account_status ?l = LOCKED" by simp
  have a: "account_status ?a = ACTIVE" by (simp add: new_user_def)
  from reset_and_unlock [of ?l] l
  have 1: "unlock_account ?l =
      (?l\<lparr>account_status := ACTIVE, failed_login_attempts := 0, last_failed_login := None\<rparr>,
       [Saved (?l\<lparr>account_status := ACTIVE, failed_login_attempts := 0, last_failed_login := None\<rparr>)])"
    by blast
  from reset_and_unlock [of ?a] a
  have 2: "unlock_account ?a = (?a, [])"
    by blast
  from 1 2 show ?thesis by simp
qed

text \<open>
  C7 as stated fails for \<open>unlock_account\<close> on an \<open>ACTIVE\<close> record with failures on it:
  after two failed logins under a limit of three the record is \<open>ACTIVE\<close> with counter
  \<open>2\<close>, and \<open>unlock_account\<close> leaves the counter at \<open>2\<close> and the timestamp set.
\<close>

theorem unlock_active_counterexample:
  "account_status (fst (run \<lparr>OTP_EXPIRY_TIME = 300, MAX_FAILED_LOGIN_ATTEMPTS = 3, LOCKOUT_DURATION = 900\<rparr>
       (failures [1, 2]) (new_user ''a@b.c''))) = ACTIVE
   \<and> failed_login_attempts (fst (unlock_account
       (fst (run \<lparr>OTP_EXPIRY_TIME = 300, MAX_FAILED_LOGIN_ATTEMPTS = 3, LOCKOUT_DURATION = 900\<rparr>
          (failures [1, 2]) (new_user ''a@b.c''))))) = 2
   \<and> last_failed_login (fst (unlock_account
       (fst (run \<lparr>OTP_EXPIRY_TIME = 300, MAX_FAILED_LOGIN_ATTEMPTS = 3, LOCKOUT_DURATION = 900\<rparr>
          (failures [1, 2]) (new_user ''a@b.c''))))) = Some 2"
  by (simp add: failures_def handle_failed_login_attempts_def unlock_account_def
        new_user_def Let_def)


section \<open>Properties of sequences of calls\<close>

lemma run_snoc:
  "run cfg (cs @ [(now, c)]) u =
     (case run cfg cs u of
        (u1, es1) \<Rightarrow> (case exec cfg now c u1 of (u2, es2) \<Rightarrow> (u2, es1 @ es2)))"
  by (induction cs arbitrary: u) (auto split: prod.splits)

lemma fst_run_snoc:
  "fst (run cfg (cs @ [(now, c)]) u) = fst (exec cfg now c (fst (run cfg cs u)))"
  by (simp add: run_snoc split: prod.splits)

lemma snd_run_snoc:
  "snd (run cfg (cs @ [(now, c)]) u) =
     snd (run cfg cs u) @ snd (exec cfg now c (fst (run cfg cs u)))"
  by (simp add: run_snoc split: prod.splits)

lemma fst_run_Cons:
  "fst (run cfg ((now, c) # cs) u) = fst (run cfg cs (fst (exec cfg now c u)))"
  by (auto split: prod.splits)

text \<open>An invariant of every call of a sequence is an invariant of the sequence.\<close>

lemma run_invariant:
  assumes "P u"
    and "\<And>now c v. (now, c) \<in> set cs \<Longrightarrow> P v \<Longrightarrow> P (fst (exec cfg now c v))"
  shows "P (fst (run cfg cs u))"
  using assms
proof (induction cs arbitrary: u)
  case Nil
  then show ?case by simp
next
  case (Cons x cs)
  obtain now c where x: "x = (now, c)" by (cases x)
  have "P (fst (exec cfg now c u))"
    using Cons.prems x by simp
  then have "P (fst (run cfg cs (fst (exec cfg now c u))))"
    using Cons.IH Cons.prems(2) by simp
  then show ?case
    using x by (simp only: fst_run_Cons)
qed

subsection \<open>Failed logins in a row\<close>

lemma handle_failed_login_attempts_fields:
  "failed_login_attempts (fst (handle_failed_login_attempts cfg now u)) = failed_login_attempts u + 1"
  "last_failed_login (fst (handle_failed_login_attempts cfg now u)) = Some now"
  "account_status (fst (handle_failed_login_attempts cfg now u)) =
     (if MAX_FAILED_LOGIN_ATTEMPTS cfg \<le> failed_login_attempts u + 1 then LOCKED
      else account_status u)"
  "snd (handle_failed_login_attempts cfg now u) \<noteq> []"
  "last (snd (handle_failed_login_attempts cfg now u)) =
     Saved (fst (handle_failed_login_attempts cfg now u))"
  by (simp_all add: handle_failed_login_attempts_def send_account_locked_email_def Let_def)

lemma failures_snoc: "failures (ts @ [t]) = failures ts @ [(t, Handle_failed_login_attempts)]"
  by (simp add: failures_def)

lemma failures_count:
  "failed_login_attempts (fst (run cfg (failures ts) u)) = failed_login_attempts u + int (length ts)"
  by (induction ts rule: rev_induct) (simp_all add: failures_def[of "[]"] failures_snoc fst_run_snoc handle_failed_login_attempts_fields)

lemma failures_status:
  "failed_login_attempts u = 0 \<Longrightarrow> account_status u = ACTIVE \<Longrightarrow>
   account_status (fst (run cfg (failures ts) u)) =
     (if ts \<noteq> [] \<and> MAX_FAILED_LOGIN_ATTEMPTS cfg \<le> int (length ts) then LOCKED else ACTIVE)"
proof (induction ts rule: rev_induct)
  case Nil
  then show ?case by (simp add: failures_def)
next
  case (snoc t ts)
  then show ?case
    by (auto simp: failures_snoc fst_run_snoc handle_failed_login_attempts_fields failures_count)
qed

lemma failures_last:
  "ts \<noteq> [] \<Longrightarrow>
   last_failed_login (fst (run cfg (failures ts) u)) = Some (last ts)
   \<and> snd (run cfg (failures ts) u) \<noteq> []
   \<and> last (snd (run cfg (failures ts) u)) = Saved (fst (run cfg (failures ts) u))"
  by (cases ts rule: rev_cases)
     (simp_all add: failures_snoc fst_run_snoc snd_run_snoc handle_failed_login_attempts_fields)

text \<open>
  C5: after \<open>n\<close> calls of \<open>handle_failed_login_attempts\<close> in a row on a record that starts
  with counter \<open>0\<close> and status \<open>ACTIVE\<close>, the counter is \<open>n\<close>; the status is \<open>ACTIVE\<close>
  while \<open>n\<close> is below \<open>MAX_FAILED_LOGIN_ATTEMPTS\<close> and \<open>LOCKED\<close> once the \<open>n\<close>-th call
  (\<open>n \<ge> 1\<close>) has reached it; \<open>last_failed_login\<close> is the clock reading of the last call,
  and the last thing the last call did, locked or not, is to save the record as it now is.
\<close>

theorem failed_attempts_counted:
  "failed_login_attempts u0 = 0 \<Longrightarrow> account_status u0 = ACTIVE \<Longrightarrow>
   run cfg (failures ts) u0 = (u, es) \<Longrightarrow>
   failed_login_attempts u = int (length ts)
   \<and> (int (length ts) < MAX_FAILED_LOGIN_ATTEMPTS cfg \<longrightarrow> account_status u = ACTIVE)
   \<and> (ts \<noteq> [] \<and> MAX_FAILED_LOGIN_ATTEMPTS cfg \<le> int (length ts) \<longrightarrow> account_status u = LOCKED)
   \<and> (ts \<noteq> [] \<longrightarrow> last_failed_login u = Some (last ts) \<and> es \<noteq> [] \<and> last es = Saved u)"
proof -
  assume fresh: "failed_login_attempts u0 = 0" "account_status u0 = ACTIVE"
    and r: "run cfg (failures ts) u0 = (u, es)"
  from r have u: "u = fst (run cfg (failures ts) u0)" and es: "es = snd (run cfg (failures ts) u0)"
    by simp_all
  have "failed_login_attempts u = int (length ts)"
    using failures_count [of cfg ts u0] fresh u by simp
  moreover have "account_status u =
      (if ts \<noteq> [] \<and> MAX_FAILED_LOGIN_ATTEMPTS cfg \<le> int (length ts) then LOCKED else ACTIVE)"
    using failures_status [OF fresh] u by simp
  moreover have "ts \<noteq> [] \<longrightarrow> last_failed_login u = Some (last ts) \<and> es \<noteq> [] \<and> last es = Saved u"
    using failures_last [of ts cfg u0] u es by simp
  ultimately show ?thesis by auto
qed


theorem failed_attempts_counted_witness:
  "failed_login_attempts (new_user ''a@b.c'') = 0 \<and> account_status (new_user ''a@b.c'') = ACTIVE
   \<and> failed_login_attempts (fst (run \<lparr>OTP_EXPIRY_TIME = 300, MAX_FAILED_LOGIN_ATTEMPTS = 3, LOCKOUT_DURATION = 900\<rparr>
         (failures [10, 20, 30]) (new_user ''a@b.c''))) = 3
   \<and> account_status (fst (run \<lparr>OTP_EXPIRY_TIME = 300, MAX_FAILED_LOGIN_ATTEMPTS = 3, LOCKOUT_DURATION = 900\<rparr>
         (failures [10, 20, 30]) (new_user ''a@b.c''))) = LOCKED
   \<and> last_failed_login (fst (run \<lparr>OTP_EXPIRY_TIME = 300, MAX_FAILED_LOGIN_ATTEMPTS = 3, LOCKOUT_DURATION = 900\<rparr>
         (failures [10, 20, 30]) (new_user ''a@b.c''))) = Some 30
   \<and> account_status (fst (run \<lparr>OTP_EXPIRY_TIME = 300, MAX_FAILED_LOGIN_ATTEMPTS = 3, LOCKOUT_DURATION = 900\<rparr>
         (failures [10, 20]) (new_user ''a@b.c''))) = ACTIVE"
proof -
  let ?cfg = "\<lparr>OTP_EXPIRY_TIME = 300, MAX_FAILED_LOGIN_ATTEMPTS = 3, LOCKOUT_DURATION = 900\<rparr>"
  let ?n = "new_user ''a@b.c''"
  have fresh: "failed_login_attempts ?n = 0" "account_status ?n = ACTIVE"
    by (simp_all add: new_user_def)
  have r3: "run ?cfg (failures [10, 20, 30]) ?n =
      (fst (run ?cfg (failures [10, 20, 30]) ?n), snd (run ?cfg (failures [10, 20, 30]) ?n))"
    and r2: "run ?cfg (failures [10, 20]) ?n =
      (fst (run ?cfg (failures [10, 20]) ?n), snd (run ?cfg (failures [10, 20]) ?n))"
    by simp_all
  from failed_attempts_counted [OF fresh r3] failed_attempts_counted [OF fresh r2] fresh
  show ?thesis by simp
qed

subsection \<open>The lockout mailer\<close>

lemma exec_locked_counter:
  "(account_status v = LOCKED \<longrightarrow> MAX_FAILED_LOGIN_ATTEMPTS cfg \<le> failed_login_attempts v) \<Longrightarrow>
   account_status (fst (exec cfg now c v)) = LOCKED \<longrightarrow>
     MAX_FAILED_LOGIN_ATTEMPTS cfg \<le> failed_login_attempts (fst (exec cfg now c v))"
  by (cases c)
     (auto simp: set_otp_def verify_otp_def handle_failed_login_attempts_def
        reset_failed_login_attempts_def unlock_account_def is_locked_out_def Let_def
        split: if_splits option.splits)

lemma run_locked_counter:
  "account_status u0 = ACTIVE \<Longrightarrow>
   account_status (fst (run cfg cs u0)) = LOCKED \<longrightarrow>
     MAX_FAILED_LOGIN_ATTEMPTS cfg \<le> failed_login_attempts (fst (run cfg cs u0))"
  by (rule run_invariant
        [where P = "\<lambda>v. account_status v = LOCKED \<longrightarrow>
                       MAX_FAILED_LOGIN_ATTEMPTS cfg \<le> failed_login_attempts v"])
     (simp_all add: exec_locked_counter)

lemma exec_notifications:
  "notifications (snd (exec cfg now c v)) =
     (if c = Handle_failed_login_attempts
         \<and> MAX_FAILED_LOGIN_ATTEMPTS cfg \<le> failed_login_attempts v + 1 then 1 else 0)"
  by (cases c)
     (auto simp: notifications_def set_otp_def verify_otp_def handle_failed_login_attempts_def
        send_account_locked_email_def reset_failed_login_attempts_def unlock_account_def
        is_locked_out_def Let_def split: if_splits option.splits)

lemma exec_locks_only_by_failure:
  "account_status v = ACTIVE \<Longrightarrow> account_status (fst (exec cfg now c v)) = LOCKED \<Longrightarrow>
   c = Handle_failed_login_attempts"
  by (cases c)
     (auto simp: set_otp_def verify_otp_def reset_failed_login_attempts_def unlock_account_def
        is_locked_out_def Let_def split: if_splits option.splits)

text \<open>
  C1, as the code has it. In any state reached from an \<open>ACTIVE\<close> record, a call invokes
  \<open>send_account_locked_email\<close> once if it is a \<open>handle_failed_login_attempts\<close> that
  leaves the account \<open>LOCKED\<close>, and not at all otherwise. So a call that takes the account
  from \<open>ACTIVE\<close> to \<open>LOCKED\<close> sends exactly one notification, and so does every further
  \<open>handle_failed_login_attempts\<close> made while the account is already \<open>LOCKED\<close>.
\<close>

theorem notification_per_locking_call:
  assumes "account_status u0 = ACTIVE"
    and "u = fst (run cfg cs u0)"
    and "exec cfg now c u = (u', es)"
  shows "notifications es =
           (if c = Handle_failed_login_attempts \<and> account_status u' = LOCKED then 1 else 0)
         \<and> (account_status u = ACTIVE \<and> account_status u' = LOCKED \<longrightarrow> notifications es = 1)
         \<and> (account_status u = LOCKED \<and> c = Handle_failed_login_attempts \<longrightarrow>
              account_status u' = LOCKED \<and> notifications es = 1)"
proof -
  have inv: "account_status u = LOCKED \<longrightarrow> MAX_FAILED_LOGIN_ATTEMPTS cfg \<le> failed_login_attempts u"
    using run_locked_counter [OF assms(1)] assms(2) by simp
  have n: "notifications es =
      (if c = Handle_failed_login_attempts
          \<and> MAX_FAILED_LOGIN_ATTEMPTS cfg \<le> failed_login_attempts u + 1 then 1 else 0)"
    using exec_notifications [of cfg now c u] assms(3) by simp
  have st: "c = Handle_failed_login_attempts \<Longrightarrow>
      account_status u' =
        (if MAX_FAILED_LOGIN_ATTEMPTS cfg \<le> failed_login_attempts u + 1 then LOCKED
         else account_status u)"
    using handle_failed_login_attempts_fields(3) [of cfg now u] assms(3) by simp
  have 1: "notifications es =
      (if c = Handle_failed_login_attempts \<and> account_status u' = LOCKED then 1 else 0)"
  proof (cases "c = Handle_failed_login_attempts")
    case True
    show ?thesis
    proof (cases "MAX_FAILED_LOGIN_ATTEMPTS cfg \<le> failed_login_attempts u + 1")
      case True
      with \<open>c = Handle_failed_login_attempts\<close> n st show ?thesis by simp
    next
      case False
      with inv have "account_status u \<noteq> LOCKED" by auto
      with False \<open>c = Handle_failed_login_attempts\<close> n st show ?thesis by simp
    qed
  next
    case False
    with n show ?thesis by simp
  qed
  have 2: "account_status u = ACTIVE \<and> account_status u' = LOCKED \<longrightarrow> notifications es = 1"
    using 1 exec_locks_only_by_failure [of u cfg now c] assms(3) by auto
  have 3: "account_status u = LOCKED \<and> c = Handle_failed_login_attempts \<longrightarrow>
             account_status u' = LOCKED \<and> notifications es = 1"
    using inv n st by auto
  from 1 2 3 show ?thesis by blast
qed

theorem notification_per_locking_call_witness:
  "account_status (new_user ''a@b.c'') = ACTIVE
   \<and> account_status (fst (run \<lparr>OTP_EXPIRY_TIME = 300, MAX_FAILED_LOGIN_ATTEMPTS = 3, LOCKOUT_DURATION = 900\<rparr>
        (failures [10, 20]) (new_user ''a@b.c''))) = ACTIVE
   \<and> account_status (fst (exec \<lparr>OTP_EXPIRY_TIME = 300, MAX_FAILED_LOGIN_ATTEMPTS = 3, LOCKOUT_DURATION = 900\<rparr>
        30 Handle_failed_login_attempts
        (fst (run \<lparr>OTP_EXPIRY_TIME = 300, MAX_FAILED_LOGIN_ATTEMPTS = 3, LOCKOUT_DURATION = 900\<rparr>
           (failures [10, 20]) (new_user ''a@b.c''))))) = LOCKED
   \<and> notifications (snd (exec \<lparr>OTP_EXPIRY_TIME = 300, MAX_FAILED_LOGIN_ATTEMPTS = 3, LOCKOUT_DURATION = 900\<rparr>
        30 Handle_failed_login_attempts
        (fst (run \<lparr>OTP_EXPIRY_TIME = 300, MAX_FAILED_LOGIN_ATTEMPTS = 3, LOCKOUT_DURATION = 900\<rparr>
           (failures [10, 20]) (new_user ''a@b.c''))))) = 1"
proof -
  let ?cfg = "\<lparr>OTP_EXPIRY_TIME = 300, MAX_FAILED_LOGIN_ATTEMPTS = 3, LOCKOUT_DURATION = 900\<rparr>"
  let ?n = "new_user ''a@b.c''"
  let ?u = "fst (run ?cfg (failures [10, 20]) ?n)"
  let ?r = "exec ?cfg 30 Handle_failed_login_attempts ?u"
  have fresh: "account_status ?n = ACTIVE"
    by (simp add: new_user_def)
  have before: "account_status ?u = ACTIVE"
    by (simp add: failures_def handle_failed_login_attempts_def new_user_def Let_def)
  have after: "account_status (fst ?r) = LOCKED"
    by (simp add: failures_def handle_failed_login_attempts_def new_user_def Let_def)
  have r: "?r = (fst ?r, snd ?r)" by simp
  from notification_per_locking_call [OF fresh refl r] before after
  have "notifications (snd ?r) = 1" by blast
  with fresh before after show ?thesis by blast
qed

text \<open>
  C1 as stated fails: with a limit of three, the third failed login locks the account
  and the fourth, made while the account is \<open>LOCKED\<close>, calls the mailer again. Four
  failed logins in a row call it twice.
\<close>

theorem notification_while_locked_counterexample:
  "account_status (fst (run \<lparr>OTP_EXPIRY_TIME = 300, MAX_FAILED_LOGIN_ATTEMPTS = 3, LOCKOUT_DURATION = 900\<rparr>
       (failures [10, 20, 30]) (new_user ''a@b.c''))) = LOCKED
   \<and> notifications (snd (run \<lparr>OTP_EXPIRY_TIME = 300, MAX_FAILED_LOGIN_ATTEMPTS = 3, LOCKOUT_DURATION = 900\<rparr>
       (failures [10, 20, 30]) (new_user ''a@b.c''))) = 1
   \<and> notifications (snd (handle_failed_login_attempts
       \<lparr>OTP_EXPIRY_TIME = 300, MAX_FAILED_LOGIN_ATTEMPTS = 3, LOCKOUT_DURATION = 900\<rparr> 40
       (fst (run \<lparr>OTP_EXPIRY_TIME = 300, MAX_FAILED_LOGIN_ATTEMPTS = 3, LOCKOUT_DURATION = 900\<rparr>
          (failures [10, 20, 30]) (new_user ''a@b.c''))))) = 1
   \<and> notifications (snd (run \<lparr>OTP_EXPIRY_TIME = 300, MAX_FAILED_LOGIN_ATTEMPTS = 3, LOCKOUT_DURATION = 900\<rparr>
       (failures [10, 20, 30, 40]) (new_user ''a@b.c''))) = 2"
  by (simp add: failures_def handle_failed_login_attempts_def send_account_locked_email_def
        notifications_def new_user_def Let_def)


subsection \<open>Invariants of the record\<close>

lemma exec_otp_expiry:
  assumes "code_given (now, c)"
    and "(otp_expiry_time v \<noteq> None) = otp_pending g v"
    and "otp_pending g v = otp_nonempty v"
  shows "(otp_expiry_time (fst (exec cfg now c v)) \<noteq> None)
           = otp_pending (outstanding_step now c v g) (fst (exec cfg now c v))
         \<and> otp_pending (outstanding_step now c v g) (fst (exec cfg now c v))
           = otp_nonempty (fst (exec cfg now c v))"
  using assms
  by (cases c)
     (auto simp: otp_pending_def otp_nonempty_def verified_def set_otp_def verify_otp_def
        handle_failed_login_attempts_def reset_failed_login_attempts_def unlock_account_def
        is_locked_out_def Let_def
        split: if_splits option.splits)

lemma run_otp_expiry:
  assumes "list_all code_given cs"
    and "(otp_expiry_time v \<noteq> None) = otp_pending g v"
    and "otp_pending g v = otp_nonempty v"
  shows "(otp_expiry_time (fst (run cfg cs v)) \<noteq> None)
           = otp_pending (outstanding cfg cs v g) (fst (run cfg cs v))
         \<and> otp_pending (outstanding cfg cs v g) (fst (run cfg cs v))
           = otp_nonempty (fst (run cfg cs v))"
  using assms
proof (induction cs arbitrary: v g)
  case Nil
  then show ?case by simp
next
  case (Cons x cs)
  obtain now c where x: "x = (now, c)" by (cases x)
  from Cons.prems(1) x have given: "code_given (now, c)" and rest: "list_all code_given cs"
    by simp_all
  note step = exec_otp_expiry [OF given Cons.prems(2) Cons.prems(3), of cfg]
  from Cons.IH [OF rest conjunct1 [OF step] conjunct2 [OF step]]
  show ?case
    unfolding x fst_run_Cons outstanding.simps .
qed

text \<open>
  C9: starting from a record with \<open>otp\<close> and \<open>otp_expiry_time\<close> unset and no code issued,
  after any sequence of calls of the six methods in which every \<open>set_otp\<close> is given a
  non-empty code, \<open>otp_expiry_time\<close> is set exactly when \<open>otp\<close> holds a non-empty code
  that was issued by \<open>set_otp\<close> and that no successful \<open>verify_otp\<close> has consumed since;
  and \<open>otp\<close> holds such a code exactly when it holds a non-empty string at all.
\<close>

theorem otp_expiry_set_iff_pending:
  assumes "otp u0 = None" and "otp_expiry_time u0 = None" and "list_all code_given cs"
  shows "(otp_expiry_time (fst (run cfg cs u0)) \<noteq> None)
           = otp_pending (outstanding cfg cs u0 None) (fst (run cfg cs u0))
         \<and> otp_pending (outstanding cfg cs u0 None) (fst (run cfg cs u0))
           = otp_nonempty (fst (run cfg cs u0))"
proof (rule run_otp_expiry [OF assms(3)])
  show "(otp_expiry_time u0 \<noteq> None) = otp_pending None u0"
    using assms(2) by (simp add: otp_pending_def)
  show "otp_pending None u0 = otp_nonempty u0"
    using assms(1) by (simp add: otp_pending_def otp_nonempty_def)
qed

theorem otp_expiry_set_iff_pending_witness:
  "otp (new_user ''a@b.c'') = None \<and> otp_expiry_time (new_user ''a@b.c'') = None
   \<and> list_all code_given [(0, Set_otp ''483920''), (5, Verify_otp ''111111'')]
   \<and> otp_expiry_time (fst (run \<lparr>OTP_EXPIRY_TIME = 300, MAX_FAILED_LOGIN_ATTEMPTS = 3, LOCKOUT_DURATION = 900\<rparr>
        [(0, Set_otp ''483920''), (5, Verify_otp ''111111'')] (new_user ''a@b.c''))) = Some 300
   \<and> otp_pending
        (outstanding \<lparr>OTP_EXPIRY_TIME = 300, MAX_FAILED_LOGIN_ATTEMPTS = 3, LOCKOUT_DURATION = 900\<rparr>
           [(0, Set_otp ''483920''), (5, Verify_otp ''111111'')] (new_user ''a@b.c'') None)
        (fst (run \<lparr>OTP_EXPIRY_TIME = 300, MAX_FAILED_LOGIN_ATTEMPTS = 3, LOCKOUT_DURATION = 900\<rparr>
           [(0, Set_otp ''483920''), (5, Verify_otp ''111111'')] (new_user ''a@b.c'')))
   \<and> list_all code_given [(0, Set_otp ''483920''), (5, Verify_otp ''483920'')]
   \<and> outstanding \<lparr>OTP_EXPIRY_TIME = 300, MAX_FAILED_LOGIN_ATTEMPTS = 3, LOCKOUT_DURATION = 900\<rparr>
        [(0, Set_otp ''483920''), (5, Verify_otp ''483920'')] (new_user ''a@b.c'') None = None
   \<and> otp_expiry_time (fst (run \<lparr>OTP_EXPIRY_TIME = 300, MAX_FAILED_LOGIN_ATTEMPTS = 3, LOCKOUT_DURATION = 900\<rparr>
        [(0, Set_otp ''483920''), (5, Verify_otp ''483920'')] (new_user ''a@b.c''))) = None"
proof -
  let ?cfg = "\<lparr>OTP_EXPIRY_TIME = 300, MAX_FAILED_LOGIN_ATTEMPTS = 3, LOCKOUT_DURATION = 900\<rparr>"
  let ?kept = "[(0, Set_otp ''483920''), (5, Verify_otp ''111111'')]"
  let ?used = "[(0, Set_otp ''483920''), (5, Verify_otp ''483920'')]"
  let ?n = "new_user ''a@b.c''"
  have h: "otp ?n = None" "otp_expiry_time ?n = None"
    by (simp_all add: new_user_def)
  have given: "list_all code_given ?kept" "list_all code_given ?used"
    by simp_all
  have e: "otp_expiry_time (fst (run ?cfg ?kept ?n)) = Some 300"
    by (simp add: set_otp_def verify_otp_def new_user_def Let_def)
  have g: "outstanding ?cfg ?used ?n None = None"
    by (simp add: verified_def set_otp_def verify_otp_def new_user_def Let_def)
  from otp_expiry_set_iff_pending [OF h given(1), of ?cfg] e
  have 1: "otp_pending (outstanding ?cfg ?kept ?n None) (fst (run ?cfg ?kept ?n))"
    by simp
  from otp_expiry_set_iff_pending [OF h given(2), of ?cfg] g
  have 2: "otp_expiry_time (fst (run ?cfg ?used ?n)) = None"
    by (simp add: otp_pending_def)
  from h given e g 1 2 show ?thesis by blast
qed

lemma exec_locked_timestamp:
  "(account_status v = LOCKED \<longrightarrow> last_failed_login v \<noteq> None) \<Longrightarrow>
   account_status (fst (exec cfg now c v)) = LOCKED \<longrightarrow>
     last_failed_login (fst (exec cfg now c v)) \<noteq> None"
  by (cases c)
     (auto simp: set_otp_def verify_otp_def handle_failed_login_attempts_def
        reset_failed_login_attempts_def unlock_account_def is_locked_out_def Let_def
        split: if_splits option.splits)

text \<open>
  C10: starting from an \<open>ACTIVE\<close> record, after any sequence of calls of the six
  methods a \<open>LOCKED\<close> record has \<open>last_failed_login\<close> set. The invariant matters:
  on a \<open>LOCKED\<close> record without the timestamp \<open>is_locked_out\<close> is true at every clock
  reading and never unlocks.
\<close>

theorem locked_has_last_failed_login:
  "account_status u0 = ACTIVE \<Longrightarrow>
   (account_status (fst (run cfg cs u0)) = LOCKED \<longrightarrow>
      last_failed_login (fst (run cfg cs u0)) \<noteq> None)
   \<and> (\<forall>v now. account_status v = LOCKED \<and> last_failed_login v = None \<longrightarrow>
        is_locked_out cfg now v = (True, v, []))"
proof
  assume "account_status u0 = ACTIVE"
  then show "account_status (fst (run cfg cs u0)) = LOCKED \<longrightarrow>
      last_failed_login (fst (run cfg cs u0)) \<noteq> None"
    by (intro run_invariant
          [where P = "\<lambda>v. account_status v = LOCKED \<longrightarrow> last_failed_login v \<noteq> None"])
       (simp_all add: exec_locked_timestamp)
next
  show "\<forall>v now. account_status v = LOCKED \<and> last_failed_login v = None \<longrightarrow>
      is_locked_out cfg now v = (True, v, [])"
    by (simp add: is_locked_out_def)
qed

theorem locked_has_last_failed_login_witness:
  "account_status (new_user ''a@b.c'') = ACTIVE
   \<and> account_status (fst (run \<lparr>OTP_EXPIRY_TIME = 300, MAX_FAILED_LOGIN_ATTEMPTS = 3, LOCKOUT_DURATION = 900\<rparr>
        (failures [10, 20, 30] @ [(31, Set_otp ''483920''), (32, Is_locked_out)]) (new_user ''a@b.c''))) = LOCKED
   \<and> last_failed_login (fst (run \<lparr>OTP_EXPIRY_TIME = 300, MAX_FAILED_LOGIN_ATTEMPTS = 3, LOCKOUT_DURATION = 900\<rparr>
        (failures [10, 20, 30] @ [(31, Set_otp ''483920''), (32, Is_locked_out)]) (new_user ''a@b.c''))) \<noteq> None"
proof -
  let ?cfg = "\<lparr>OTP_EXPIRY_TIME = 300, MAX_FAILED_LOGIN_ATTEMPTS = 3, LOCKOUT_DURATION = 900\<rparr>"
  let ?cs = "failures [10, 20, 30] @ [(31, Set_otp ''483920''), (32, Is_locked_out)]"
  let ?n = "new_user ''a@b.c''"
  have fresh: "account_status ?n = ACTIVE"
    by (simp add: new_user_def)
  have locked: "account_status (fst (run ?cfg ?cs ?n)) = LOCKED"
    by (simp add: failures_def set_otp_def handle_failed_login_attempts_def is_locked_out_def
          new_user_def Let_def)
  from locked_has_last_failed_login [OF fresh, of ?cfg ?cs] locked
  have "last_failed_login (fst (run ?cfg ?cs ?n)) \<noteq> None" by blast
  with fresh locked show ?thesis by blast
qed

end
